theory Spec2Isabelle
  imports Main "HOL-Library.Sublist"
begin

section \<open>Values\<close>

text \<open>
  Decoded JSON values (what \<^verbatim>\<open>json.loads\<close> returns and \<^verbatim>\<open>json.dumps\<close> accepts): tool-call
  arguments, tool schemas, subprocess results. A dict is an association list, looked up
  with \<^const>\<open>map_of\<close>.
\<close>

datatype json =
    JNull
  | JBool bool
  | JInt int
  | JStr string
  | JList "json list"
  | JObj "(string \<times> json) list"

type_synonym params = "(string \<times> json) list"

text \<open>
  The Python values a skill can hand to the planner. The repository has two classes named
  \<^verbatim>\<open>SkillResult\<close>: \<^verbatim>\<open>skills.base_skill.SkillResult\<close> (base\_skill.py lines 21--33), which
  every skill under \<^verbatim>\<open>skills/\<close> returns, and \<^verbatim>\<open>cognitive.planner.SkillResult\<close> (planner.py
  lines 19--26), the class the planner's \<^verbatim>\<open>isinstance\<close> test names. \<open>Opaque t\<close> is any other
  object, of a type named \<open>t\<close>, that \<^verbatim>\<open>json.dumps\<close> rejects. The three arguments of the
  two result constructors are the fields \<^verbatim>\<open>success\<close>, \<^verbatim>\<open>output\<close>, \<^verbatim>\<open>error\<close>
  (\<open>output\<close> is a keyword of Isabelle, so the record below calls the field \<open>output_val\<close>).
\<close>

datatype pyval =
    Json json
  | Opaque string
  | BaseSkillResult bool pyval "string option"
  | PlannerSkillResult bool pyval "string option"

record skill_result =
  success :: bool
  output_val :: pyval
  error :: "string option"

text \<open>An exception is its message, \<^verbatim>\<open>str(e)\<close>: every handler in the code reads nothing else.\<close>

type_synonym exn = string

section \<open>Effects and the host\<close>

text \<open>
  What a request does beyond returning its text is logged in a \<open>world\<close>, threaded
  through every function: the commands handed to \<^verbatim>\<open>asyncio.create_subprocess_shell\<close>, the
  confirmation requests handed to the callback (the f-string of planner.py line 231 is a
  function of the skill name and the arguments, which is what is logged), the number of
  calls of \<^verbatim>\<open>brain.chat\<close>, and the calls of \<^verbatim>\<open>memory.add_message\<close>.
\<close>

record world =
  spawned :: "string list"
  prompts :: "(string \<times> params) list"
  chats :: nat
  memory_log :: "(string \<times> string) list"

text \<open>
  What the operating system answers to a spawned command (terminal.py lines 102--164):
  the call raised, \<^verbatim>\<open>communicate\<close> timed out, or the process exited with a return code and
  its decoded output.
\<close>

datatype proc_outcome =
    SpawnRaised exn
  | TimedOut
  | Exited int string string

text \<open>
  The host is what lies outside the repository: the operating system, and the parts of
  the Python interpreter that the code calls and this theory does not compute. These are
  \<^verbatim>\<open>repr\<close>, and \<^verbatim>\<open>str.lower\<close>, \<^verbatim>\<open>str.strip\<close>, \<^verbatim>\<open>str.split\<close>, \<^verbatim>\<open>len\<close> and slicing on text
  that is not ASCII throughout, where they follow the interpreter's Unicode tables.
\<close>

record host =
  py_lower :: "string \<Rightarrow> string"
  py_strip :: "string \<Rightarrow> string"
  py_split :: "string \<Rightarrow> string list"
  py_len :: "string \<Rightarrow> nat"
  py_slice_to :: "nat \<Rightarrow> string \<Rightarrow> string"
  py_repr :: "json \<Rightarrow> string"
  subprocess_shell :: "world \<Rightarrow> string \<Rightarrow> json \<Rightarrow> json \<Rightarrow> proc_outcome"

section \<open>Strings\<close>

text \<open>
  A Python \<^verbatim>\<open>str\<close> is kept as the list of its UTF-8 bytes, the fixed Chinese messages of
  the code included: equality, concatenation, \<^verbatim>\<open>startswith\<close> and \<^verbatim>\<open>in\<close> on well-formed text are
  those of the byte lists. \<^verbatim>\<open>str.lower\<close>, \<^verbatim>\<open>str.strip\<close>, \<^verbatim>\<open>str.split\<close>, \<^verbatim>\<open>len\<close> and slicing work on
  code points and follow the Unicode tables. On a text that is ASCII throughout they are
  computed here: the letters \<^verbatim>\<open>A\<close> to \<^verbatim>\<open>Z\<close> are the only ones with a lower case, and the
  white space is the characters 9 to 13, 28 to 31 and the blank. On any other text they
  are the functions of the host.
\<close>

definition ascii :: "string \<Rightarrow> bool" where
  "ascii s = list_all (\<lambda>c. (of_char c :: nat) < 128) s"

definition ascii_space :: "char \<Rightarrow> bool" where
  "ascii_space c = (let n = of_char c :: nat in (9 \<le> n \<and> n \<le> 13) \<or> (28 \<le> n \<and> n \<le> 32))"

definition ascii_lower_char :: "char \<Rightarrow> char" where
  "ascii_lower_char c =
     (let n = of_char c :: nat in if 65 \<le> n \<and> n \<le> 90 then char_of (n + 32) else c)"

definition ascii_lower :: "string \<Rightarrow> string" where
  "ascii_lower s = map ascii_lower_char s"

definition ascii_lstrip :: "string \<Rightarrow> string" where
  "ascii_lstrip s = dropWhile ascii_space s"

definition ascii_rstrip :: "string \<Rightarrow> string" where
  "ascii_rstrip s = rev (dropWhile ascii_space (rev s))"

definition ascii_strip :: "string \<Rightarrow> string" where
  "ascii_strip s = ascii_lstrip (ascii_rstrip s)"

text \<open>The maximal runs of characters that are not white space, in an ASCII text.\<close>

fun split_from :: "string \<Rightarrow> string \<Rightarrow> string list" where
  "split_from cur [] = (if cur = [] then [] else [cur])"
| "split_from cur (c # cs) =
     (if ascii_space c then (if cur = [] then split_from [] cs else cur # split_from [] cs)
      else split_from (cur @ [c]) cs)"

definition ascii_split :: "string \<Rightarrow> string list" where
  "ascii_split s = split_from [] s"

text \<open>\<^verbatim>\<open>s.lower()\<close>, \<^verbatim>\<open>s.strip()\<close>, \<^verbatim>\<open>s.split()\<close>, \<^verbatim>\<open>len(s)\<close> and \<^verbatim>\<open>s[:n]\<close>.\<close>

definition lower :: "host \<Rightarrow> string \<Rightarrow> string" where
  "lower h s = (if ascii s then ascii_lower s else py_lower h s)"

definition strip :: "host \<Rightarrow> string \<Rightarrow> string" where
  "strip h s = (if ascii s then ascii_strip s else py_strip h s)"

definition split :: "host \<Rightarrow> string \<Rightarrow> string list" where
  "split h s = (if ascii s then ascii_split s else py_split h s)"

definition len :: "host \<Rightarrow> string \<Rightarrow> nat" where
  "len h s = (if ascii s then length s else py_len h s)"

definition slice_to :: "host \<Rightarrow> nat \<Rightarrow> string \<Rightarrow> string" where
  "slice_to h n s = (if ascii s then take n s else py_slice_to h n s)"

text \<open>\<^verbatim>\<open>s.startswith(p)\<close>.\<close>

fun startswith :: "string \<Rightarrow> string \<Rightarrow> bool" where
  "startswith s [] = True"
| "startswith [] (p # ps) = False"
| "startswith (c # cs) (p # ps) = (c = p \<and> startswith cs ps)"

text \<open>\<^verbatim>\<open>sub in s\<close>: \<open>sub\<close> occurs in \<open>s\<close> as a contiguous block.\<close>

fun contains :: "string \<Rightarrow> string \<Rightarrow> bool" where
  "contains sub [] = (sub = [])"
| "contains sub (c # cs) = (startswith (c # cs) sub \<or> contains sub cs)"

text \<open>Decimal rendering of an integer, as an f-string prints it.\<close>

function str_nat :: "nat \<Rightarrow> string" where
  "str_nat n =
     (if n < 10 then [char_of (48 + n)] else str_nat (n div 10) @ [char_of (48 + n mod 10)])"
  by pat_completeness auto
termination
  by (relation "measure id") auto

definition str_int :: "int \<Rightarrow> string" where
  "str_int i = (if i < 0 then CHR ''-'' # str_nat (nat (- i)) else str_nat (nat i))"

section \<open>The fixed messages of the code\<close>

text \<open>terminal.py line 97.\<close>

definition MSG_REJECTED :: string where
  "MSG_REJECTED =
    [CHR 0xE5, CHR 0x91, CHR 0xBD, CHR 0xE4, CHR 0xBB, CHR 0xA4, CHR 0xE8, CHR 0xA2, CHR 0xAB,
     CHR 0xE6, CHR 0x8B, CHR 0x92, CHR 0xE7, CHR 0xBB, CHR 0x9D, CHR 0xEF, CHR 0xBC, CHR 0x9A,
     CHR 0xE5, CHR 0x8C, CHR 0x85, CHR 0xE5, CHR 0x90, CHR 0xAB, CHR 0xE7, CHR 0xA6, CHR 0x81,
     CHR 0xE6, CHR 0xAD, CHR 0xA2, CHR 0xE7, CHR 0x9A, CHR 0x84, CHR 0xE6, CHR 0x93, CHR 0x8D,
     CHR 0xE4, CHR 0xBD, CHR 0x9C]"

text \<open>terminal.py line 76, followed by the action.\<close>

definition MSG_UNKNOWN_ACTION :: string where
  "MSG_UNKNOWN_ACTION =
    [CHR 0xE6, CHR 0x9C, CHR 0xAA, CHR 0xE7, CHR 0x9F, CHR 0xA5, CHR 0xE7, CHR 0x9A, CHR 0x84,
     CHR 0xE6, CHR 0x93, CHR 0x8D, CHR 0xE4, CHR 0xBD, CHR 0x9C, CHR 0x3A, CHR 0x20]"

text \<open>terminal.py line 132, before the timeout.\<close>

definition MSG_TIMEOUT_PRE :: string where
  "MSG_TIMEOUT_PRE =
    [CHR 0xE5, CHR 0x91, CHR 0xBD, CHR 0xE4, CHR 0xBB, CHR 0xA4, CHR 0xE6, CHR 0x89, CHR 0xA7,
     CHR 0xE8, CHR 0xA1, CHR 0x8C, CHR 0xE8, CHR 0xB6, CHR 0x85, CHR 0xE6, CHR 0x97, CHR 0xB6,
     CHR 0xEF, CHR 0xBC, CHR 0x88]"

text \<open>terminal.py line 132, after the timeout.\<close>

definition MSG_TIMEOUT_POST :: string where
  "MSG_TIMEOUT_POST =
    [CHR 0xE7, CHR 0xA7, CHR 0x92, CHR 0xEF, CHR 0xBC, CHR 0x89]"

text \<open>terminal.py line 141.\<close>

definition MSG_TRUNCATED :: string where
  "MSG_TRUNCATED =
    [CHR 0x0A, CHR 0x2E, CHR 0x2E, CHR 0x2E, CHR 0x28, CHR 0xE8, CHR 0xBE, CHR 0x93, CHR 0xE5,
     CHR 0x87, CHR 0xBA, CHR 0xE5, CHR 0xB7, CHR 0xB2, CHR 0xE6, CHR 0x88, CHR 0xAA, CHR 0xE6,
     CHR 0x96, CHR 0xAD, CHR 0x29]"

text \<open>terminal.py line 160, followed by the return code.\<close>

definition MSG_NONZERO :: string where
  "MSG_NONZERO =
    [CHR 0xE5, CHR 0x91, CHR 0xBD, CHR 0xE4, CHR 0xBB, CHR 0xA4, CHR 0xE8, CHR 0xBF, CHR 0x94,
     CHR 0xE5, CHR 0x9B, CHR 0x9E, CHR 0xE9, CHR 0x9D, CHR 0x9E, CHR 0xE9, CHR 0x9B, CHR 0xB6,
     CHR 0xE7, CHR 0x8A, CHR 0xB6, CHR 0xE6, CHR 0x80, CHR 0x81, CHR 0xE7, CHR 0xA0, CHR 0x81,
     CHR 0x3A, CHR 0x20]"

text \<open>terminal.py line 177, followed by the command.\<close>

definition MSG_NOT_SAFE_LISTED :: string where
  "MSG_NOT_SAFE_LISTED =
    [CHR 0xE5, CHR 0x91, CHR 0xBD, CHR 0xE4, CHR 0xBB, CHR 0xA4, CHR 0xE4, CHR 0xB8, CHR 0x8D,
     CHR 0xE5, CHR 0x9C, CHR 0xA8, CHR 0xE5, CHR 0xAE, CHR 0x89, CHR 0xE5, CHR 0x85, CHR 0xA8,
     CHR 0xE5, CHR 0x88, CHR 0x97, CHR 0xE8, CHR 0xA1, CHR 0xA8, CHR 0xE4, CHR 0xB8, CHR 0xAD,
     CHR 0x3A, CHR 0x20]"

text \<open>planner.py line 220, followed by the name.\<close>

definition MSG_UNKNOWN_SKILL :: string where
  "MSG_UNKNOWN_SKILL =
    [CHR 0xE6, CHR 0x9C, CHR 0xAA, CHR 0xE7, CHR 0x9F, CHR 0xA5, CHR 0xE7, CHR 0x9A, CHR 0x84,
     CHR 0xE6, CHR 0x8A, CHR 0x80, CHR 0xE8, CHR 0x83, CHR 0xBD, CHR 0x3A, CHR 0x20]"

text \<open>planner.py line 236.\<close>

definition MSG_USER_DENIED :: string where
  "MSG_USER_DENIED =
    [CHR 0xE7, CHR 0x94, CHR 0xA8, CHR 0xE6, CHR 0x88, CHR 0xB7, CHR 0xE6, CHR 0x8B, CHR 0x92,
     CHR 0xE7, CHR 0xBB, CHR 0x9D, CHR 0xE6, CHR 0x89, CHR 0xA7, CHR 0xE8, CHR 0xA1, CHR 0x8C,
     CHR 0xE6, CHR 0xAD, CHR 0xA4, CHR 0xE6, CHR 0x93, CHR 0x8D, CHR 0xE4, CHR 0xBD, CHR 0x9C]"

text \<open>planner.py line 194, followed by str(e).\<close>

definition MSG_LOOP_ERROR :: string where
  "MSG_LOOP_ERROR =
    [CHR 0xE6, CHR 0x8A, CHR 0xB1, CHR 0xE6, CHR 0xAD, CHR 0x89, CHR 0xEF, CHR 0xBC, CHR 0x8C,
     CHR 0xE5, CHR 0xA4, CHR 0x84, CHR 0xE7, CHR 0x90, CHR 0x86, CHR 0xE8, CHR 0xAF, CHR 0xB7,
     CHR 0xE6, CHR 0xB1, CHR 0x82, CHR 0xE6, CHR 0x97, CHR 0xB6, CHR 0xE5, CHR 0x87, CHR 0xBA,
     CHR 0xE7, CHR 0x8E, CHR 0xB0, CHR 0xE9, CHR 0x94, CHR 0x99, CHR 0xE8, CHR 0xAF, CHR 0xAF,
     CHR 0x3A, CHR 0x20]"

text \<open>planner.py line 199.\<close>

definition MSG_TOO_COMPLEX :: string where
  "MSG_TOO_COMPLEX =
    [CHR 0xE6, CHR 0x8A, CHR 0xB1, CHR 0xE6, CHR 0xAD, CHR 0x89, CHR 0xEF, CHR 0xBC, CHR 0x8C,
     CHR 0xE4, CHR 0xBB, CHR 0xBB, CHR 0xE5, CHR 0x8A, CHR 0xA1, CHR 0xE8, CHR 0xBF, CHR 0x87,
     CHR 0xE4, CHR 0xBA, CHR 0x8E, CHR 0xE5, CHR 0xA4, CHR 0x8D, CHR 0xE6, CHR 0x9D, CHR 0x82,
     CHR 0xEF, CHR 0xBC, CHR 0x8C, CHR 0xE6, CHR 0x97, CHR 0xA0, CHR 0xE6, CHR 0xB3, CHR 0x95,
     CHR 0xE5, CHR 0x9C, CHR 0xA8, CHR 0xE9, CHR 0x99, CHR 0x90, CHR 0xE5, CHR 0xAE, CHR 0x9A,
     CHR 0xE6, CHR 0xAD, CHR 0xA5, CHR 0xE9, CHR 0xAA, CHR 0xA4, CHR 0xE5, CHR 0x86, CHR 0x85,
     CHR 0xE5, CHR 0xAE, CHR 0x8C, CHR 0xE6, CHR 0x88, CHR 0x90, CHR 0xE3, CHR 0x80, CHR 0x82]"

section \<open>Configuration (config.py)\<close>

text \<open>\<^verbatim>\<open>SecurityConfig\<close>, config.py lines 75--112: the two lists the terminal skill reads.\<close>

record security_config =
  safe_commands :: "string list"
  forbidden_commands :: "string list"

definition default_security_config :: security_config where
  "default_security_config =
     \<lparr> safe_commands =
         [''dir'', ''ls'', ''cat'', ''type'', ''echo'', ''pwd'', ''cd'',
          ''whoami'', ''date'', ''time'', ''hostname'',
          ''python --version'', ''pip list'', ''node --version''],
       forbidden_commands =
         [''rm -rf'', ''del /f'', ''format'', ''mkfs'',
          ''shutdown'', ''reboot'', ''halt'',
          ''DROP'', ''DELETE FROM'', ''TRUNCATE''] \<rparr>"

section \<open>Formatting\<close>

text \<open>\<^verbatim>\<open>f"{v}"\<close>: a string prints as itself, an integer in decimal, the rest as Python's \<^verbatim>\<open>repr\<close>.\<close>

definition py_format :: "host \<Rightarrow> json \<Rightarrow> string" where
  "py_format h v = (case v of JStr s \<Rightarrow> s | JInt i \<Rightarrow> str_int i | _ \<Rightarrow> py_repr h v)"

definition py_type_name :: "json \<Rightarrow> string" where
  "py_type_name v =
     (case v of JNull \<Rightarrow> ''NoneType'' | JBool _ \<Rightarrow> ''bool'' | JInt _ \<Rightarrow> ''int''
      | JStr _ \<Rightarrow> ''str'' | JList _ \<Rightarrow> ''list'' | JObj _ \<Rightarrow> ''dict'')"

text \<open>The \<^verbatim>\<open>AttributeError\<close> of \<^verbatim>\<open>v.lower()\<close> on a value that is not a string.\<close>

definition no_attribute :: "json \<Rightarrow> string \<Rightarrow> exn" where
  "no_attribute v a =
     [CHR 0x27] @ py_type_name v @ [CHR 0x27] @ '' object has no attribute '' @
     [CHR 0x27] @ a @ [CHR 0x27]"

section \<open>The terminal skill (skills/terminal.py)\<close>

text \<open>\<^verbatim>\<open>_is_command_safe\<close>, lines 30--39. The loop over the deny-list is \<open>forbidden_scan\<close>.\<close>

fun forbidden_scan :: "host \<Rightarrow> string list \<Rightarrow> string \<Rightarrow> bool" where
  "forbidden_scan h [] command_lower = True"
| "forbidden_scan h (forbidden # rest) command_lower =
     (if contains (lower h forbidden) command_lower then False
      else forbidden_scan h rest command_lower)"

definition is_command_safe :: "security_config \<Rightarrow> host \<Rightarrow> string \<Rightarrow> bool" where
  "is_command_safe cfg h command =
     (let command_lower = strip h (lower h command)
      in forbidden_scan h (forbidden_commands cfg) command_lower)"

text \<open>
  \<^verbatim>\<open>_is_command_readonly\<close>, lines 41--55. \<^verbatim>\<open>safe_cmd.lower().split()[0]\<close> raises
  \<^verbatim>\<open>IndexError\<close> on an entry that is all white space.
\<close>

fun safe_scan :: "host \<Rightarrow> string list \<Rightarrow> string \<Rightarrow> string \<Rightarrow> exn + bool" where
  "safe_scan h [] command_lower first_word = Inr False"
| "safe_scan h (safe_cmd # rest) command_lower first_word =
     (if startswith command_lower (lower h safe_cmd) then Inr True
      else (case split h (lower h safe_cmd) of
              [] \<Rightarrow> Inl ''list index out of range''
            | w # ws \<Rightarrow>
                if first_word = w then Inr True
                else safe_scan h rest command_lower first_word))"

definition is_command_readonly :: "security_config \<Rightarrow> host \<Rightarrow> string \<Rightarrow> exn + bool" where
  "is_command_readonly cfg h command =
     (let command_lower = strip h (lower h command);
          first_word = (case split h command_lower of [] \<Rightarrow> [] | w # ws \<Rightarrow> w)
      in safe_scan h (safe_commands cfg) command_lower first_word)"

text \<open>
  \<^verbatim>\<open>needs_confirmation\<close>, lines 57--66. \<^verbatim>\<open>params.get("command", "")\<close> may be any JSON
  value; \<^verbatim>\<open>command.lower()\<close> raises on one that is not a string.
\<close>

definition needs_confirmation :: "security_config \<Rightarrow> host \<Rightarrow> params \<Rightarrow> exn + bool" where
  "needs_confirmation cfg h params =
     (case (case map_of params ''command'' of None \<Rightarrow> JStr [] | Some v \<Rightarrow> v) of
        JStr command \<Rightarrow>
          (case is_command_readonly cfg h command of
             Inl e \<Rightarrow> Inl e
           | Inr readonly \<Rightarrow> if readonly then Inr False else Inr True)
      | v \<Rightarrow> Inl (no_attribute v ''lower''))"

text \<open>Lines 122--161: what \<^verbatim>\<open>_run_command\<close> returns once the process has been spawned.\<close>

definition finish_process :: "host \<Rightarrow> json \<Rightarrow> proc_outcome \<Rightarrow> skill_result" where
  "finish_process h timeout oc =
     (case oc of
        SpawnRaised e \<Rightarrow> \<lparr> success = False, output_val = Json JNull, error = Some e \<rparr>
      | TimedOut \<Rightarrow>
          \<lparr> success = False, output_val = Json JNull,
            error = Some (MSG_TIMEOUT_PRE @ py_format h timeout @ MSG_TIMEOUT_POST) \<rparr>
      | Exited returncode out err \<Rightarrow>
          (let stdout_str = strip h out;
               stderr_str = strip h err;
               stdout_str = (if len h stdout_str > 5000
                             then slice_to h 5000 stdout_str @ MSG_TRUNCATED else stdout_str);
               report = Json (JObj [(''returncode'', JInt returncode),
                                    (''stdout'', JStr stdout_str),
                                    (''stderr'', JStr stderr_str)])
           in if returncode = 0
              then \<lparr> success = True, output_val = report, error = None \<rparr>
              else \<lparr> success = False, output_val = report,
                     error = Some (MSG_NONZERO @ str_int returncode) \<rparr>))"

text \<open>
  \<^verbatim>\<open>_run_command\<close>, lines 85--164. The result comes with the list of the commands handed
  to \<^verbatim>\<open>create_subprocess_shell\<close> by this call: empty, or the command itself.
\<close>

definition run_command ::
  "security_config \<Rightarrow> host \<Rightarrow> world \<Rightarrow> json \<Rightarrow> json \<Rightarrow> json \<Rightarrow> (exn + skill_result) \<times> string list"
where
  "run_command cfg h w command cwd timeout =
     (case command of
        JStr c \<Rightarrow>
          if \<not> is_command_safe cfg h c
          then (Inr \<lparr> success = False, output_val = Json JNull, error = Some MSG_REJECTED \<rparr>, [])
          else (Inr (finish_process h timeout (subprocess_shell h w c cwd timeout)), [c])
      | v \<Rightarrow> (Inl (no_attribute v ''lower''), []))"

text \<open>\<^verbatim>\<open>_run_safe_command\<close>, lines 166--181.\<close>

definition run_safe_command ::
  "security_config \<Rightarrow> host \<Rightarrow> world \<Rightarrow> json \<Rightarrow> json \<Rightarrow> json \<Rightarrow> (exn + skill_result) \<times> string list"
where
  "run_safe_command cfg h w command cwd timeout =
     (case command of
        JStr c \<Rightarrow>
          (case is_command_readonly cfg h c of
             Inl e \<Rightarrow> (Inl e, [])
           | Inr readonly \<Rightarrow>
               if \<not> readonly
               then (Inr \<lparr> success = False, output_val = Json JNull,
                          error = Some (MSG_NOT_SAFE_LISTED @ c) \<rparr>, [])
               else run_command cfg h w command cwd timeout)
      | v \<Rightarrow> (Inl (no_attribute v ''lower''), []))"

text \<open>
  The binding of \<^verbatim>\<open>**params\<close> to \<^verbatim>\<open>(command, cwd=None, timeout=30)\<close>: a keyword outside the
  three, or no \<^verbatim>\<open>command\<close>, is a \<^verbatim>\<open>TypeError\<close>.
\<close>

definition bind_params :: "string \<Rightarrow> params \<Rightarrow> exn + (json \<times> json \<times> json)" where
  "bind_params fname params =
     (case find (\<lambda>k. k \<notin> set [''command'', ''cwd'', ''timeout'']) (map fst params) of
        Some k \<Rightarrow>
          Inl (''TerminalSkill.'' @ fname @ ''() got an unexpected keyword argument '' @
               [CHR 0x27] @ k @ [CHR 0x27])
      | None \<Rightarrow>
          (case map_of params ''command'' of
             None \<Rightarrow>
               Inl (''TerminalSkill.'' @ fname @
                    ''() missing 1 required positional argument: '' @
                    [CHR 0x27] @ ''command'' @ [CHR 0x27])
           | Some command \<Rightarrow>
               Inr (command,
                    (case map_of params ''cwd'' of None \<Rightarrow> JNull | Some v \<Rightarrow> v),
                    (case map_of params ''timeout'' of None \<Rightarrow> JInt 30 | Some v \<Rightarrow> v))))"

text \<open>
  \<^verbatim>\<open>execute\<close>, lines 68--83, called by the planner as \<^verbatim>\<open>skill.execute(**arguments)\<close>. It
  returns a \<^verbatim>\<open>skills.base_skill.SkillResult\<close>; an exception of the action is turned into a
  failed one (lines 81--83). Outside that \<^verbatim>\<open>try\<close>, a call without \<^verbatim>\<open>action\<close> and an
  unhashable \<^verbatim>\<open>action\<close> raise.
\<close>

definition base_result :: "skill_result \<Rightarrow> pyval" where
  "base_result r = BaseSkillResult (success r) (output_val r) (error r)"

definition call_action ::
  "(json \<Rightarrow> json \<Rightarrow> json \<Rightarrow> (exn + skill_result) \<times> string list) \<Rightarrow> string \<Rightarrow> params
     \<Rightarrow> (exn + pyval) \<times> string list"
where
  "call_action f fname params =
     (case bind_params fname params of
        Inl e \<Rightarrow> (Inr (BaseSkillResult False (Json JNull) (Some e)), [])
      | Inr (command, cwd, timeout) \<Rightarrow>
          (case f command cwd timeout of
             (Inl e, sp) \<Rightarrow> (Inr (BaseSkillResult False (Json JNull) (Some e)), sp)
           | (Inr r, sp) \<Rightarrow> (Inr (base_result r), sp)))"

definition execute ::
  "security_config \<Rightarrow> host \<Rightarrow> world \<Rightarrow> params \<Rightarrow> (exn + pyval) \<times> string list"
where
  "execute cfg h w arguments =
     (case map_of arguments ''action'' of
        None \<Rightarrow>
          (Inl (''TerminalSkill.execute() missing 1 required positional argument: '' @
                [CHR 0x27] @ ''action'' @ [CHR 0x27]), [])
      | Some action \<Rightarrow>
          (let params = filter (\<lambda>kv. fst kv \<noteq> ''action'') arguments in
           case action of
             JStr a \<Rightarrow>
               if a = ''run_command''
               then call_action (run_command cfg h w) ''_run_command'' params
               else if a = ''run_safe_command''
               then call_action (run_safe_command cfg h w) ''_run_safe_command'' params
               else (Inr (BaseSkillResult False (Json JNull) (Some (MSG_UNKNOWN_ACTION @ a))), [])
           | JList xs \<Rightarrow> (Inl (''unhashable type: '' @ [CHR 0x27] @ ''list'' @ [CHR 0x27]), [])
           | JObj kvs \<Rightarrow> (Inl (''unhashable type: '' @ [CHR 0x27] @ ''dict'' @ [CHR 0x27]), [])
           | v \<Rightarrow>
               (Inr (BaseSkillResult False (Json JNull)
                      (Some (MSG_UNKNOWN_ACTION @ py_format h v))), [])))"

section \<open>Tool schemas (skills/base\_skill.py, skills/terminal.py)\<close>

text \<open>
  \<^verbatim>\<open>create_tool_schema\<close>, base\_skill.py lines 101--130. \<^verbatim>\<open>required or []\<close> is the empty
  list for \<^verbatim>\<open>None\<close> and for an empty list.
\<close>

definition create_tool_schema :: "string \<Rightarrow> string \<Rightarrow> params \<Rightarrow> string list option \<Rightarrow> json" where
  "create_tool_schema name description parameters required =
     JObj [(''type'', JStr ''function''),
           (''function'',
            JObj [(''name'', JStr name),
                  (''description'', JStr description),
                  (''parameters'',
                   JObj [(''type'', JStr ''object''),
                         (''properties'', JObj parameters),
                         (''required'',
                          JList (map JStr
                            (case required of
                               None \<Rightarrow> []
                             | Some r \<Rightarrow> if r \<noteq> [] then r else [])))])])]"

text \<open>terminal.py line 187.\<close>

definition DESC_TERMINAL :: string where
  "DESC_TERMINAL =
    [CHR 0xE6, CHR 0x89, CHR 0xA7, CHR 0xE8, CHR 0xA1, CHR 0x8C, CHR 0xE7, CHR 0xBB, CHR 0x88,
     CHR 0xE7, CHR 0xAB, CHR 0xAF, CHR 0xE5, CHR 0x91, CHR 0xBD, CHR 0xE4, CHR 0xBB, CHR 0xA4,
     CHR 0xE3, CHR 0x80, CHR 0x82, CHR 0xE5, CHR 0x8D, CHR 0xB1, CHR 0xE9, CHR 0x99, CHR 0xA9,
     CHR 0xE5, CHR 0x91, CHR 0xBD, CHR 0xE4, CHR 0xBB, CHR 0xA4, CHR 0xE4, CHR 0xBC, CHR 0x9A,
     CHR 0xE8, CHR 0xA2, CHR 0xAB, CHR 0xE6, CHR 0x8B, CHR 0x92, CHR 0xE7, CHR 0xBB, CHR 0x9D,
     CHR 0xEF, CHR 0xBC, CHR 0x8C, CHR 0xE9, CHR 0x9C, CHR 0x80, CHR 0xE8, CHR 0xA6, CHR 0x81,
     CHR 0xE7, CHR 0x94, CHR 0xA8, CHR 0xE6, CHR 0x88, CHR 0xB7, CHR 0xE7, CHR 0xA1, CHR 0xAE,
     CHR 0xE8, CHR 0xAE, CHR 0xA4, CHR 0xE6, CHR 0x89, CHR 0x8D, CHR 0xE8, CHR 0x83, CHR 0xBD,
     CHR 0xE6, CHR 0x89, CHR 0xA7, CHR 0xE8, CHR 0xA1, CHR 0x8C]"

text \<open>terminal.py line 192.\<close>

definition DESC_ACTION :: string where
  "DESC_ACTION =
    [CHR 0xE6, CHR 0x93, CHR 0x8D, CHR 0xE4, CHR 0xBD, CHR 0x9C, CHR 0xE7, CHR 0xB1, CHR 0xBB,
     CHR 0xE5, CHR 0x9E, CHR 0x8B, CHR 0xEF, CHR 0xBC, CHR 0x9A, CHR 0x72, CHR 0x75, CHR 0x6E,
     CHR 0x5F, CHR 0x63, CHR 0x6F, CHR 0x6D, CHR 0x6D, CHR 0x61, CHR 0x6E, CHR 0x64, CHR 0x20,
     CHR 0xE9, CHR 0x9C, CHR 0x80, CHR 0xE8, CHR 0xA6, CHR 0x81, CHR 0xE7, CHR 0xA1, CHR 0xAE,
     CHR 0xE8, CHR 0xAE, CHR 0xA4, CHR 0xEF, CHR 0xBC, CHR 0x8C, CHR 0x72, CHR 0x75, CHR 0x6E,
     CHR 0x5F, CHR 0x73, CHR 0x61, CHR 0x66, CHR 0x65, CHR 0x5F, CHR 0x63, CHR 0x6F, CHR 0x6D,
     CHR 0x6D, CHR 0x61, CHR 0x6E, CHR 0x64, CHR 0x20, CHR 0xE4, CHR 0xBB, CHR 0x85, CHR 0xE6,
     CHR 0x89, CHR 0xA7, CHR 0xE8, CHR 0xA1, CHR 0x8C, CHR 0xE5, CHR 0x8F, CHR 0xAA, CHR 0xE8,
     CHR 0xAF, CHR 0xBB, CHR 0xE5, CHR 0x91, CHR 0xBD, CHR 0xE4, CHR 0xBB, CHR 0xA4]"

text \<open>terminal.py line 196.\<close>

definition DESC_COMMAND :: string where
  "DESC_COMMAND =
    [CHR 0xE8, CHR 0xA6, CHR 0x81, CHR 0xE6, CHR 0x89, CHR 0xA7, CHR 0xE8, CHR 0xA1, CHR 0x8C,
     CHR 0xE7, CHR 0x9A, CHR 0x84, CHR 0xE5, CHR 0x91, CHR 0xBD, CHR 0xE4, CHR 0xBB, CHR 0xA4]"

text \<open>terminal.py line 200.\<close>

definition DESC_CWD :: string where
  "DESC_CWD =
    [CHR 0xE5, CHR 0xB7, CHR 0xA5, CHR 0xE4, CHR 0xBD, CHR 0x9C, CHR 0xE7, CHR 0x9B, CHR 0xAE,
     CHR 0xE5, CHR 0xBD, CHR 0x95, CHR 0xEF, CHR 0xBC, CHR 0x88, CHR 0xE5, CHR 0x8F, CHR 0xAF,
     CHR 0xE9, CHR 0x80, CHR 0x89, CHR 0xEF, CHR 0xBC, CHR 0x89]"

text \<open>terminal.py line 204.\<close>

definition DESC_TIMEOUT :: string where
  "DESC_TIMEOUT =
    [CHR 0xE8, CHR 0xB6, CHR 0x85, CHR 0xE6, CHR 0x97, CHR 0xB6, CHR 0xE6, CHR 0x97, CHR 0xB6,
     CHR 0xE9, CHR 0x97, CHR 0xB4, CHR 0xEF, CHR 0xBC, CHR 0x88, CHR 0xE7, CHR 0xA7, CHR 0x92,
     CHR 0xEF, CHR 0xBC, CHR 0x89]"

text \<open>\<^verbatim>\<open>TerminalSkill.get_schema\<close>, terminal.py lines 183--208.\<close>

definition get_schema :: json where
  "get_schema =
     create_tool_schema ''terminal'' DESC_TERMINAL
       [(''action'',
         JObj [(''type'', JStr ''string''),
               (''enum'', JList [JStr ''run_command'', JStr ''run_safe_command'']),
               (''description'', JStr DESC_ACTION)]),
        (''command'', JObj [(''type'', JStr ''string''), (''description'', JStr DESC_COMMAND)]),
        (''cwd'', JObj [(''type'', JStr ''string''), (''description'', JStr DESC_CWD)]),
        (''timeout'', JObj [(''type'', JStr ''integer''), (''description'', JStr DESC_TIMEOUT)])]
       (Some [''action'', ''command''])"

section \<open>The planner (cognitive/planner.py)\<close>

text \<open>
  A tool call and a response of the reasoning client, as \<^verbatim>\<open>LLMBrain.chat\<close> builds them
  (llm\_brain.py lines 94--110): \<^verbatim>\<open>tool_calls\<close> is \<^verbatim>\<open>None\<close> or a list.
\<close>

record tool_call =
  tc_id :: string
  tc_name :: string
  tc_arguments :: params

record response =
  r_content :: string
  r_tool_calls :: "tool_call list option"

text \<open>
  A message of the transcript. Its content is a text or the \<^verbatim>\<open>json.dumps\<close> of a result
  dict, kept as the dict. An entry of an assistant message's \<^verbatim>\<open>tool_calls\<close> (planner.py
  lines 165--172) holds the call's id, the type, and the function's name and dumped
  arguments.
\<close>

datatype body = Text string | Dumps "(string \<times> pyval) list"

record call_entry =
  ce_id :: string
  ce_type :: string
  ce_function_name :: string
  ce_function_arguments :: params

record message =
  role :: string
  content :: body
  tool_calls :: "call_entry list option"
  tool_call_id :: "string option"

text \<open>
  A skill is whatever object sits in the registry: the planner looks for the attributes
  \<^verbatim>\<open>needs_confirmation\<close> and \<^verbatim>\<open>get_schema\<close> with \<^verbatim>\<open>hasattr\<close> (\<open>None\<close>: no such
  attribute) and calls \<^verbatim>\<open>execute\<close>, which returns or raises and may spawn subprocesses.
\<close>

record skill =
  sk_needs_confirmation :: "(world \<Rightarrow> params \<Rightarrow> exn + bool) option"
  sk_execute :: "world \<Rightarrow> params \<Rightarrow> (exn + pyval) \<times> string list"
  sk_get_schema :: "json option"

definition TerminalSkill :: "security_config \<Rightarrow> host \<Rightarrow> skill" where
  "TerminalSkill cfg h =
     \<lparr> sk_needs_confirmation = Some (\<lambda>w params. needs_confirmation cfg h params),
       sk_execute = execute cfg h,
       sk_get_schema = Some get_schema \<rparr>"

text \<open>
  The planner with its collaborators. The reasoning client returns a response or raises;
  the system prompt (lines 82--111) and the recent context come from the brain, the
  context manager and the memory, which are outside the loop; the registry is a dict in
  insertion order; the confirmation callback is \<^verbatim>\<open>None\<close> until one is installed (lines
  59 and 68--70).
\<close>

record planner =
  brain_chat :: "world \<Rightarrow> message list \<Rightarrow> json list option \<Rightarrow> exn + response"
  build_system_prompt :: "world \<Rightarrow> string"
  get_recent_context :: "world \<Rightarrow> message list"
  skills :: "(string \<times> skill) list"
  confirmation_callback :: "(world \<Rightarrow> string \<Rightarrow> params \<Rightarrow> exn + bool) option"

text \<open>\<^verbatim>\<open>__init__\<close>, lines 37--61: a new planner has no confirmation callback.\<close>

definition new_planner ::
  "(world \<Rightarrow> message list \<Rightarrow> json list option \<Rightarrow> exn + response) \<Rightarrow> (world \<Rightarrow> string)
     \<Rightarrow> (world \<Rightarrow> message list) \<Rightarrow> (string \<times> skill) list \<Rightarrow> planner" where
  "new_planner brain prompt context registry =
     \<lparr> brain_chat = brain, build_system_prompt = prompt, get_recent_context = context,
       skills = registry, confirmation_callback = None \<rparr>"

definition MAX_ITERATIONS :: nat where
  "MAX_ITERATIONS = 10"


text \<open>Python's truth value of a decoded JSON value.\<close>

definition truthy :: "json \<Rightarrow> bool" where
  "truthy v =
     (case v of JNull \<Rightarrow> False | JBool b \<Rightarrow> b | JInt i \<Rightarrow> i \<noteq> 0 | JStr s \<Rightarrow> s \<noteq> []
      | JList xs \<Rightarrow> xs \<noteq> [] | JObj kvs \<Rightarrow> kvs \<noteq> [])"

text \<open>\<^verbatim>\<open>_get_tools_schema\<close>, lines 72--80.\<close>

fun get_tools_schema :: "(string \<times> skill) list \<Rightarrow> json list" where
  "get_tools_schema [] = []"
| "get_tools_schema ((name, sk) # rest) =
     (case sk_get_schema sk of
        None \<Rightarrow> get_tools_schema rest
      | Some schema \<Rightarrow>
          if truthy schema then schema # get_tools_schema rest else get_tools_schema rest)"

subsection \<open>Dispatching one batch of tool calls\<close>

definition failure :: "string \<Rightarrow> (string \<times> pyval) list" where
  "failure msg = [(''success'', Json (JBool False)), (''error'', Json (JStr msg))]"

text \<open>
  Lines 243--253: a result that is an instance of the planner's own \<^verbatim>\<open>SkillResult\<close> is
  unpacked; anything else, an instance of \<^verbatim>\<open>skills.base_skill.SkillResult\<close> included,
  is recorded whole as the output of a success.
\<close>

definition record_result :: "pyval \<Rightarrow> (string \<times> pyval) list" where
  "record_result result =
     (case result of
        PlannerSkillResult s out err \<Rightarrow>
          [(''success'', Json (JBool s)),
           (''output'', out),
           (''error'', Json (case err of None \<Rightarrow> JNull | Some e \<Rightarrow> JStr e))]
      | _ \<Rightarrow> [(''success'', Json (JBool True)), (''output'', result)])"

text \<open>
  Lines 227--238: the confirmation step of one call. A request is logged when the callback
  is called.
\<close>

datatype gate = Proceed | Denied | GateRaised exn

definition confirmation_gate ::
  "planner \<Rightarrow> skill \<Rightarrow> string \<Rightarrow> params \<Rightarrow> world \<Rightarrow> gate \<times> world" where
  "confirmation_gate P sk name arguments w =
     (case sk_needs_confirmation sk of
        None \<Rightarrow> (Proceed, w)
      | Some needs \<Rightarrow>
          (case needs w arguments of
             Inl e \<Rightarrow> (GateRaised e, w)
           | Inr needed \<Rightarrow>
               if \<not> needed then (Proceed, w)
               else (case confirmation_callback P of
                       None \<Rightarrow> (Proceed, w)
                     | Some callback \<Rightarrow>
                         (let w' = w\<lparr> prompts := prompts w @ [(name, arguments)] \<rparr> in
                          case callback w name arguments of
                            Inl e \<Rightarrow> (GateRaised e, w')
                          | Inr confirmed \<Rightarrow>
                              if \<not> confirmed then (Denied, w') else (Proceed, w')))))"

text \<open>The body of the loop of \<^verbatim>\<open>_execute_tool_calls\<close>, lines 212--260: one call, one result.\<close>

definition execute_tool_call ::
  "planner \<Rightarrow> tool_call \<Rightarrow> world \<Rightarrow> (string \<times> pyval) list \<times> world" where
  "execute_tool_call P tc w =
     (let name = tc_name tc; arguments = tc_arguments tc in
      case map_of (skills P) name of
        None \<Rightarrow> (failure (MSG_UNKNOWN_SKILL @ name), w)
      | Some sk \<Rightarrow>
          (case confirmation_gate P sk name arguments w of
             (GateRaised e, w') \<Rightarrow> (failure e, w')
           | (Denied, w') \<Rightarrow> (failure MSG_USER_DENIED, w')
           | (Proceed, w') \<Rightarrow>
               (case sk_execute sk w' arguments of
                  (Inl e, sp) \<Rightarrow> (failure e, w'\<lparr> spawned := spawned w' @ sp \<rparr>)
                | (Inr result, sp) \<Rightarrow>
                    (record_result result, w'\<lparr> spawned := spawned w' @ sp \<rparr>))))"

text \<open>\<^verbatim>\<open>_execute_tool_calls\<close>, lines 207--262.\<close>

fun execute_tool_calls ::
  "planner \<Rightarrow> tool_call list \<Rightarrow> world \<Rightarrow> (string \<times> pyval) list list \<times> world" where
  "execute_tool_calls P [] w = ([], w)"
| "execute_tool_calls P (tc # rest) w =
     (case execute_tool_call P tc w of
        (r, w') \<Rightarrow>
          (case execute_tool_calls P rest w' of
             (rs, w'') \<Rightarrow> (r # rs, w'')))"

subsection \<open>The loop\<close>

text \<open>\<^verbatim>\<open>json.dumps(result)\<close>, line 181: it raises \<^verbatim>\<open>TypeError\<close> on a value that is not JSON.\<close>

fun serializable :: "pyval \<Rightarrow> bool" where
  "serializable (Json j) = True"
| "serializable (Opaque t) = False"
| "serializable (BaseSkillResult s out err) = False"
| "serializable (PlannerSkillResult s out err) = False"

fun type_name :: "pyval \<Rightarrow> string" where
  "type_name (Json j) = py_type_name j"
| "type_name (Opaque t) = t"
| "type_name (BaseSkillResult s out err) = ''SkillResult''"
| "type_name (PlannerSkillResult s out err) = ''SkillResult''"

definition dumps :: "(string \<times> pyval) list \<Rightarrow> exn + body" where
  "dumps result =
     (case find (\<lambda>v. \<not> serializable v) (map snd result) of
        None \<Rightarrow> Inr (Dumps result)
      | Some v \<Rightarrow> Inl (''Object of type '' @ type_name v @ '' is not JSON serializable''))"

definition assistant_message :: "response \<Rightarrow> tool_call list \<Rightarrow> message" where
  "assistant_message resp tcs =
     \<lparr> role = ''assistant'',
       content = Text (r_content resp),
       tool_calls =
         Some (map (\<lambda>tc. \<lparr> ce_id = tc_id tc, ce_type = ''function'',
                            ce_function_name = tc_name tc,
                            ce_function_arguments = tc_arguments tc \<rparr>) tcs),
       tool_call_id = None \<rparr>"

definition tool_message :: "tool_call \<Rightarrow> body \<Rightarrow> message" where
  "tool_message tc b =
     \<lparr> role = ''tool'', content = b, tool_calls = None, tool_call_id = Some (tc_id tc) \<rparr>"

text \<open>
  Lines 177--182: the loop over \<^verbatim>\<open>zip(response["tool_calls"], tool_results)\<close>. An exception of
  \<^verbatim>\<open>json.dumps\<close> leaves the loop with the messages appended so far.
\<close>

fun append_tool_messages ::
  "message list \<Rightarrow> (tool_call \<times> (string \<times> pyval) list) list \<Rightarrow> exn option \<times> message list" where
  "append_tool_messages messages [] = (None, messages)"
| "append_tool_messages messages ((tc, result) # rest) =
     (case dumps result of
        Inl e \<Rightarrow> (Some e, messages)
      | Inr b \<Rightarrow> append_tool_messages (messages @ [tool_message tc b]) rest)"

text \<open>
  One pass through the body of the \<^verbatim>\<open>while\<close> loop, lines 151--195: it ends in
  \<^verbatim>\<open>continue\<close> (line 185) or in \<^verbatim>\<open>break\<close> with the final response (lines 190 and 195).
\<close>

datatype step = Continue "message list" world | Break string "message list" world

definition react_step :: "planner \<Rightarrow> json list option \<Rightarrow> message list \<Rightarrow> world \<Rightarrow> step" where
  "react_step P tools messages w =
     (let w1 = w\<lparr> chats := chats w + 1 \<rparr> in
      case brain_chat P w messages tools of
        Inl e \<Rightarrow> Break (MSG_LOOP_ERROR @ e) messages w1
      | Inr resp \<Rightarrow>
          (case r_tool_calls resp of
             None \<Rightarrow> Break (r_content resp) messages w1
           | Some [] \<Rightarrow> Break (r_content resp) messages w1
           | Some (tc # tcs) \<Rightarrow>
               (case execute_tool_calls P (tc # tcs) w1 of
                  (tool_results, w2) \<Rightarrow>
                    (case append_tool_messages
                            (messages @ [assistant_message resp (tc # tcs)])
                            (zip (tc # tcs) tool_results) of
                       (Some e, messages') \<Rightarrow> Break (MSG_LOOP_ERROR @ e) messages' w2
                     | (None, messages') \<Rightarrow> Continue messages' w2))))"

text \<open>
  The \<^verbatim>\<open>while\<close> loop, lines 144--195, from any of its states: the iteration counter, the
  final response so far, the messages and the world.
\<close>

function react_loop ::
  "planner \<Rightarrow> json list option \<Rightarrow> nat \<Rightarrow> string \<Rightarrow> message list \<Rightarrow> world
     \<Rightarrow> nat \<times> string \<times> message list \<times> world" where
  "react_loop P tools iteration final_response messages w =
     (if iteration < MAX_ITERATIONS then
        (case react_step P tools messages w of
           Continue messages' w' \<Rightarrow> react_loop P tools (iteration + 1) final_response messages' w'
         | Break final messages' w' \<Rightarrow> (iteration + 1, final, messages', w'))
      else (iteration, final_response, messages, w))"
  by pat_completeness auto
termination
  by (relation "measure (\<lambda>(P, tools, iteration, final_response, messages, w). MAX_ITERATIONS - iteration)") auto

text \<open>Lines 197--199: the check after the loop.\<close>

definition final_text :: "nat \<Rightarrow> string \<Rightarrow> string" where
  "final_text iteration final_response =
     (if iteration \<ge> MAX_ITERATIONS then MSG_TOO_COMPLEX else final_response)"

text \<open>
  \<^verbatim>\<open>plan_and_execute\<close>, lines 113--205: the final response, with the messages and the world
  the request leaves behind.
\<close>

definition plan_and_execute ::
  "planner \<Rightarrow> string \<Rightarrow> world \<Rightarrow> string \<times> message list \<times> world" where
  "plan_and_execute P user_input w =
     (let w0 = w\<lparr> memory_log := memory_log w @ [(''user'', user_input)] \<rparr>;
          messages =
            \<lparr> role = ''system'', content = Text (build_system_prompt P w0),
              tool_calls = None, tool_call_id = None \<rparr> # get_recent_context P w0;
          tools = get_tools_schema (skills P)
      in case react_loop P (if tools \<noteq> [] then Some tools else None) 0 [] messages w0 of
           (iteration, final_response, messages', w1) \<Rightarrow>
             (let final_response = final_text iteration final_response
              in (final_response, messages',
                  w1\<lparr> memory_log := memory_log w1 @ [(''assistant'', final_response)] \<rparr>)))"

text \<open>The world a pass through the loop body leaves.\<close>

definition step_world :: "step \<Rightarrow> world" where
  "step_world s = (case s of Continue messages w \<Rightarrow> w | Break final messages w \<Rightarrow> w)"

text \<open>
  Lines 177--182 when no \<^verbatim>\<open>json.dumps\<close> raises: one tool message for each call and its
  result, in the order of the calls.
\<close>

definition tool_messages :: "tool_call list \<Rightarrow> (string \<times> pyval) list list \<Rightarrow> message list" where
  "tool_messages tcs rs = map (\<lambda>(tc, r). tool_message tc (Dumps r)) (zip tcs rs)"

text \<open>A result dict that \<^verbatim>\<open>json.dumps\<close> accepts.\<close>

definition dumpable :: "(string \<times> pyval) list \<Rightarrow> bool" where
  "dumpable result = list_all serializable (map snd result)"

section \<open>Concrete instances\<close>

text \<open>
  A fresh world, and a host whose every command exits with code 0 and no output. Its
  text functions are never reached below: every text of the instances is ASCII.
\<close>

definition world0 :: world where
  "world0 = \<lparr> spawned = [], prompts = [], chats = 0, memory_log = [] \<rparr>"

definition host0 :: host where
  "host0 =
     \<lparr> py_lower = (\<lambda>s. s), py_strip = (\<lambda>s. s), py_split = (\<lambda>s. [s]),
       py_len = length, py_slice_to = take, py_repr = (\<lambda>v. []),
       subprocess_shell = (\<lambda>w c cwd t. Exited 0 [] []) \<rparr>"

text \<open>A configuration whose one deny-list entry ends in a blank.\<close>

definition halt_config :: security_config where
  "halt_config = \<lparr> safe_commands = [], forbidden_commands = [''halt ''] \<rparr>"

text \<open>
  Tool calls: one to a skill nobody registered, one to the terminal skill with a command.
\<close>

definition call_unknown :: tool_call where
  "call_unknown = \<lparr> tc_id = ''call_0'', tc_name = ''notepad'', tc_arguments = [] \<rparr>"

definition terminal_call :: "string \<Rightarrow> tool_call" where
  "terminal_call command =
     \<lparr> tc_id = ''call_1'', tc_name = ''terminal'',
       tc_arguments = [(''action'', JStr ''run_command''), (''command'', JStr command)] \<rparr>"

text \<open>
  Reasoning clients: one that asks for the same tool call on its first nine calls and
  answers \<^verbatim>\<open>done\<close> on the tenth, one that always asks for a tool call, one that always
  raises.
\<close>

definition late_brain :: "world \<Rightarrow> message list \<Rightarrow> json list option \<Rightarrow> exn + response" where
  "late_brain w messages tools =
     (if chats w < 9 then Inr \<lparr> r_content = [], r_tool_calls = Some [call_unknown] \<rparr>
      else Inr \<lparr> r_content = ''done'', r_tool_calls = None \<rparr>)"

definition asking_brain ::
  "tool_call list \<Rightarrow> world \<Rightarrow> message list \<Rightarrow> json list option \<Rightarrow> exn + response" where
  "asking_brain tcs w messages tools = Inr \<lparr> r_content = [], r_tool_calls = Some tcs \<rparr>"

definition failing_brain ::
  "exn \<Rightarrow> world \<Rightarrow> message list \<Rightarrow> json list option \<Rightarrow> exn + response" where
  "failing_brain e w messages tools = Inl e"

text \<open>
  Planners: one with an empty registry, one with the terminal skill of the default
  configuration; a callback that approves every request.
\<close>

definition bare_planner ::
  "(world \<Rightarrow> message list \<Rightarrow> json list option \<Rightarrow> exn + response) \<Rightarrow> planner" where
  "bare_planner brain = new_planner brain (\<lambda>w. []) (\<lambda>w. []) []"

definition terminal_planner ::
  "(world \<Rightarrow> message list \<Rightarrow> json list option \<Rightarrow> exn + response) \<Rightarrow> planner" where
  "terminal_planner brain =
     new_planner brain (\<lambda>w. []) (\<lambda>w. [])
       [(''terminal'', TerminalSkill default_security_config host0)]"


text \<open>
  Skills: one whose \<^verbatim>\<open>execute\<close> raises, one that asks for confirmation of every call and
  returns a result of the planner's class; a planner with one skill registered as
  \<^verbatim>\<open>tool\<close>, and a call to it.
\<close>

definition raising_skill :: "exn \<Rightarrow> skill" where
  "raising_skill e =
     \<lparr> sk_needs_confirmation = None, sk_execute = (\<lambda>w params. (Inl e, [])),
       sk_get_schema = None \<rparr>"

definition critical_skill :: skill where
  "critical_skill =
     \<lparr> sk_needs_confirmation = Some (\<lambda>w params. Inr True),
       sk_execute = (\<lambda>w params. (Inr (PlannerSkillResult True (Json (JStr ''ok'')) None), [])),
       sk_get_schema = None \<rparr>"

definition tool_planner ::
  "(world \<Rightarrow> message list \<Rightarrow> json list option \<Rightarrow> exn + response) \<Rightarrow> skill \<Rightarrow> planner" where
  "tool_planner brain sk = new_planner brain (\<lambda>w. []) (\<lambda>w. []) [(''tool'', sk)]"

definition call_tool :: tool_call where
  "call_tool = \<lparr> tc_id = ''call_2'', tc_name = ''tool'', tc_arguments = [] \<rparr>"

text \<open>
  A planner with both a skill that raises, registered as \<^verbatim>\<open>tool\<close>, and the terminal skill;
  and a terminal call whose arguments come in another order and with a timeout.
\<close>

definition two_skill_planner ::
  "(world \<Rightarrow> message list \<Rightarrow> json list option \<Rightarrow> exn + response) \<Rightarrow> planner" where
  "two_skill_planner brain =
     new_planner brain (\<lambda>w. []) (\<lambda>w. [])
       [(''tool'', raising_skill ''boom''),
        (''terminal'', TerminalSkill default_security_config host0)]"


section \<open>Strings: facts used below\<close>

lemma startswith_iff_prefix: "startswith s p = prefix p s"
  by (induction s p rule: startswith.induct) auto

lemma contains_iff_sublist: "contains sub s = sublist sub s"
proof (induction s)
  case Nil
  then show ?case by auto
next
  case (Cons c cs)
  then show ?case
    by (cases sub) (auto simp: startswith_iff_prefix sublist_Cons_right)
qed

lemma ascii_space_lower_char: "ascii_space (ascii_lower_char c) = ascii_space c"
proof (cases "65 \<le> (of_char c :: nat) \<and> (of_char c :: nat) \<le> 90")
  case True
  then have "(of_char c + 32 :: nat) mod 256 = of_char c + 32" by simp
  with True show ?thesis by (simp add: ascii_space_def ascii_lower_char_def Let_def)
next
  case False
  then show ?thesis by (simp add: ascii_space_def ascii_lower_char_def Let_def)
qed

lemma ascii_lower_char_below: "(of_char c :: nat) < 128 \<Longrightarrow> (of_char (ascii_lower_char c) :: nat) < 128"
proof (cases "65 \<le> (of_char c :: nat) \<and> (of_char c :: nat) \<le> 90")
  case True
  then have "(of_char c + 32 :: nat) mod 256 = of_char c + 32" by simp
  with True show ?thesis by (simp add: ascii_lower_char_def Let_def)
next
  case False
  assume "(of_char c :: nat) < 128"
  with False show ?thesis by (simp add: ascii_lower_char_def Let_def)
qed

lemma ascii_ascii_lower: "ascii s \<Longrightarrow> ascii (ascii_lower s)"
  by (induction s) (simp_all add: ascii_def ascii_lower_def ascii_lower_char_below)

lemma dropWhile_same_length:
  assumes "length (dropWhile P xs) = length xs"
  shows "dropWhile P xs = xs"
proof -
  have "length (takeWhile P xs) + length (dropWhile P xs) = length xs"
    by (metis length_append takeWhile_dropWhile_id)
  with assms have "takeWhile P xs = []" by simp
  then show ?thesis by (metis append_Nil takeWhile_dropWhile_id)
qed

text \<open>A string that \<open>ascii_strip\<close> leaves alone begins and ends with a character that is no blank.\<close>

lemma strip_fixed:
  assumes "ascii_strip f = f" and "f \<noteq> []"
  shows "\<not> ascii_space (hd f) \<and> \<not> ascii_space (last f)"
proof -
  let ?g = "rev (dropWhile ascii_space (rev f))"
  have g: "dropWhile ascii_space ?g = f"
    using assms(1) by (simp add: ascii_strip_def ascii_lstrip_def ascii_rstrip_def)
  have "length f \<le> length ?g" by (metis g length_dropWhile_le)
  moreover have "length ?g \<le> length f" by (metis length_rev length_dropWhile_le)
  ultimately have "length (dropWhile ascii_space (rev f)) = length (rev f)" by simp
  then have r: "dropWhile ascii_space (rev f) = rev f" by (rule dropWhile_same_length)
  then have "\<not> ascii_space (hd (rev f))" using assms(2) by (simp add: dropWhile_eq_self_iff)
  then have l: "\<not> ascii_space (last f)" using assms(2) by (simp add: hd_rev)
  from g r have "dropWhile ascii_space f = f" by simp
  then have "\<not> ascii_space (hd f)" using assms(2) by (simp add: dropWhile_eq_self_iff)
  with l show ?thesis by simp
qed

text \<open>Stripping a string keeps every block in it that has no blank at either end.\<close>

lemma lstrip_block:
  assumes "xs \<noteq> []" and "\<not> ascii_space (hd xs)"
  shows "\<exists>ps'. ascii_lstrip (ps @ xs @ ss) = ps' @ xs @ ss"
proof (cases "\<forall>x\<in>set ps. ascii_space x")
  case True
  from assms obtain x xs' where "xs = x # xs'" by (cases xs) auto
  with assms True have "ascii_lstrip (ps @ xs @ ss) = [] @ xs @ ss"
    by (simp add: ascii_lstrip_def dropWhile_append)
  then show ?thesis by blast
next
  case False
  then have "ascii_lstrip (ps @ xs @ ss) = dropWhile ascii_space ps @ xs @ ss"
    by (auto simp add: ascii_lstrip_def dropWhile_append)
  then show ?thesis by blast
qed

lemma rstrip_block:
  assumes "xs \<noteq> []" and "\<not> ascii_space (last xs)"
  shows "\<exists>ss'. ascii_rstrip (ps @ xs @ ss) = ps @ xs @ ss'"
proof -
  have "rev xs \<noteq> []" and "\<not> ascii_space (hd (rev xs))"
    using assms by (simp_all add: hd_rev)
  from lstrip_block[OF this, of "rev ss" "rev ps"]
  obtain q where "dropWhile ascii_space (rev ss @ rev xs @ rev ps) = q @ rev xs @ rev ps"
    by (auto simp: ascii_lstrip_def)
  then have "ascii_rstrip (ps @ xs @ ss) = ps @ xs @ rev q" by (simp add: ascii_rstrip_def)
  then show ?thesis by blast
qed

lemma contains_strip:
  assumes "contains xs s" and "xs \<noteq> []"
    and "\<not> ascii_space (hd xs)" and "\<not> ascii_space (last xs)"
  shows "contains xs (ascii_strip s)"
proof -
  from assms(1) obtain ps ss where s: "s = ps @ xs @ ss"
    by (auto simp: contains_iff_sublist sublist_def)
  from rstrip_block[OF assms(2,4)] obtain ss' where "ascii_rstrip s = ps @ xs @ ss'"
    unfolding s by blast
  moreover from lstrip_block[OF assms(2,3)]
  obtain ps' where "ascii_lstrip (ps @ xs @ ss') = ps' @ xs @ ss'" by blast
  ultimately have "ascii_strip s = ps' @ xs @ ss'" by (simp add: ascii_strip_def)
  then show ?thesis by (auto simp: contains_iff_sublist sublist_def)
qed

lemma contains_lower_strip:
  assumes "ascii f" and "ascii command" and "strip h f = f"
    and "contains (lower h f) (lower h command)"
  shows "contains (lower h f) (strip h (lower h command))"
proof -
  from assms(1,3) have fixed: "ascii_strip f = f" by (simp add: strip_def)
  from assms(1) have lf: "lower h f = ascii_lower f" by (simp add: lower_def)
  from assms(2) have lc: "lower h command = ascii_lower command" by (simp add: lower_def)
  from assms(2) have sc: "strip h (ascii_lower command) = ascii_strip (ascii_lower command)"
    by (simp add: strip_def ascii_ascii_lower)
  show ?thesis
  proof (cases "f = []")
    case True
    have "contains [] s" for s by (cases s) simp_all
    with True lf show ?thesis by (simp add: ascii_lower_def)
  next
    case False
    with fixed have "\<not> ascii_space (hd f) \<and> \<not> ascii_space (last f)" by (rule strip_fixed)
    with False have "\<not> ascii_space (hd (ascii_lower f))"
      and "\<not> ascii_space (last (ascii_lower f))"
      by (simp_all add: ascii_lower_def hd_map last_map ascii_space_lower_char)
    moreover from False have "ascii_lower f \<noteq> []" by (simp add: ascii_lower_def)
    moreover from assms(4) have "contains (ascii_lower f) (ascii_lower command)"
      by (simp add: lf lc)
    ultimately have "contains (ascii_lower f) (ascii_strip (ascii_lower command))"
      by (intro contains_strip)
    then show ?thesis by (simp add: lf lc sc)
  qed
qed

section \<open>The terminal skill and the deny-list\<close>

lemma forbidden_scan_hit:
  "f \<in> set fs \<Longrightarrow> contains (lower h f) command_lower \<Longrightarrow> \<not> forbidden_scan h fs command_lower"
  by (induction fs) auto

lemma deny_listed_not_safe:
  assumes "forbidden \<in> set (forbidden_commands cfg)"
    and "contains (lower h forbidden) (strip h (lower h command))
         \<or> (ascii forbidden \<and> ascii command \<and> strip h forbidden = forbidden
            \<and> contains (lower h forbidden) (lower h command))"
  shows "\<not> is_command_safe cfg h command"
proof -
  from assms(2) have "contains (lower h forbidden) (strip h (lower h command))"
    by (auto intro: contains_lower_strip)
  from forbidden_scan_hit[OF assms(1) this] show ?thesis
    by (simp add: is_command_safe_def)
qed

text \<open>
  Claim C1, as the code has it. \<^verbatim>\<open>_is_command_safe\<close> searches the lower-cased entries in
  the lower-cased command after stripping it (line 32). A command whose stripped,
  lower-cased form contains a lower-cased deny-list entry is refused by \<^verbatim>\<open>_run_command\<close>
  with the fixed rejection message, and no subprocess is spawned; so is, in particular,
  every ASCII command that contains, without regard to case, an ASCII entry with no
  white space at its ends, as every default entry is. \<^verbatim>\<open>_run_safe_command\<close> spawns none
  either and returns only failed results (or raises, on a blank allow-list entry).
  Neither function has the confirmation outcome among its inputs.
\<close>

theorem run_command_rejects_deny_listed:
  assumes "forbidden \<in> set (forbidden_commands cfg)"
    and "contains (lower h forbidden) (strip h (lower h command))
         \<or> (ascii forbidden \<and> ascii command \<and> strip h forbidden = forbidden
            \<and> contains (lower h forbidden) (lower h command))"
  shows "run_command cfg h w (JStr command) cwd timeout =
           (Inr \<lparr> success = False, output_val = Json JNull, error = Some MSG_REJECTED \<rparr>, [])
       \<and> snd (run_safe_command cfg h w (JStr command) cwd timeout) = []
       \<and> (case fst (run_safe_command cfg h w (JStr command) cwd timeout) of
            Inl e \<Rightarrow> True
          | Inr r \<Rightarrow> \<not> success r \<and>
              (error r = Some MSG_REJECTED \<or> error r = Some (MSG_NOT_SAFE_LISTED @ command)))"
proof -
  have "\<not> is_command_safe cfg h command" using assms by (rule deny_listed_not_safe)
  then have "run_command cfg h w (JStr command) cwd timeout =
           (Inr \<lparr> success = False, output_val = Json JNull, error = Some MSG_REJECTED \<rparr>, [])"
    by (simp add: run_command_def)
  then show ?thesis
    by (simp add: run_safe_command_def split: sum.splits)
qed

text \<open>
  The theorem at the default configuration and the command \<^verbatim>\<open>Format C:\<close>, and at an
  entry that ends in a blank and a command that still holds it once stripped.
\<close>

theorem run_command_rejects_deny_listed_witness:
  "''format'' \<in> set (forbidden_commands default_security_config)
   \<and> ascii ''format'' \<and> ascii ''Format C:''
   \<and> strip host0 ''format'' = ''format''
   \<and> contains (lower host0 ''format'') (lower host0 ''Format C:'')
   \<and> run_command default_security_config host0 world0 (JStr ''Format C:'') JNull (JInt 30) =
       (Inr \<lparr> success = False, output_val = Json JNull, error = Some MSG_REJECTED \<rparr>, [])
   \<and> snd (run_safe_command default_security_config host0 world0
            (JStr ''Format C:'') JNull (JInt 30)) = []
   \<and> ''halt '' \<in> set (forbidden_commands halt_config)
   \<and> contains (lower host0 ''halt '') (strip host0 (lower host0 ''  Halt now ''))
   \<and> run_command halt_config host0 world0 (JStr ''  Halt now '') JNull (JInt 30) =
       (Inr \<lparr> success = False, output_val = Json JNull, error = Some MSG_REJECTED \<rparr>, [])"
proof -
  have 1: "''format'' \<in> set (forbidden_commands default_security_config)"
    by (simp add: default_security_config_def)
  have 2: "ascii ''format'' \<and> ascii ''Format C:'' \<and> strip host0 ''format'' = ''format''
           \<and> contains (lower host0 ''format'') (lower host0 ''Format C:'')"
    by code_simp
  have 3: "''halt '' \<in> set (forbidden_commands halt_config)"
    by (simp add: halt_config_def)
  have 4: "contains (lower host0 ''halt '') (strip host0 (lower host0 ''  Halt now ''))"
    by code_simp
  from run_command_rejects_deny_listed[OF 1 disjI2[OF 2], of world0 JNull "JInt 30"]
    run_command_rejects_deny_listed[OF 3 disjI1[OF 4], of world0 JNull "JInt 30"] 1 2 3 4
  show ?thesis by simp
qed

text \<open>
  The claim as it is written fails for an entry that ends in a blank: the command is
  stripped before the search, so \<^verbatim>\<open>"sudo halt "\<close> contains the entry \<^verbatim>\<open>"halt "\<close> and is
  spawned all the same.
\<close>

theorem run_command_trailing_blank_counterexample:
  "''halt '' \<in> set (forbidden_commands halt_config)
   \<and> contains (lower host0 ''halt '') (lower host0 ''sudo halt '')
   \<and> run_command halt_config host0 world0 (JStr ''sudo halt '') JNull (JInt 30) =
       (Inr \<lparr> success = True,
              output_val = Json (JObj [(''returncode'', JInt 0), (''stdout'', JStr []),
                                       (''stderr'', JStr [])]),
              error = None \<rparr>, [''sudo halt ''])"
proof -
  have 1: "contains (lower host0 ''halt '') (lower host0 ''sudo halt '')" by code_simp
  have 2: "is_command_safe halt_config host0 ''sudo halt ''" by code_simp
  have 3: "strip host0 [] = []" by code_simp
  have 4: "len host0 [] = 0" by code_simp
  show ?thesis using 1 2 3 4
    by (simp add: halt_config_def run_command_def host0_def finish_process_def)
qed

section \<open>The loop makes one reasoning call per iteration\<close>

lemma confirmation_gate_chats:
  "confirmation_gate P sk name arguments w = (g, w') \<Longrightarrow> chats w' = chats w"
  by (auto simp add: confirmation_gate_def Let_def split: option.splits sum.splits if_splits)

lemma execute_tool_call_chats:
  "execute_tool_call P tc w = (r, w') \<Longrightarrow> chats w' = chats w"
  by (auto simp add: execute_tool_call_def Let_def
      split: option.splits prod.splits gate.splits sum.splits
      dest: confirmation_gate_chats)

lemma execute_tool_calls_chats:
  "execute_tool_calls P tcs w = (rs, w') \<Longrightarrow> chats w' = chats w"
proof (induction tcs arbitrary: w rs w')
  case Nil
  then show ?case by simp
next
  case (Cons tc tcs)
  obtain r w1 where 1: "execute_tool_call P tc w = (r, w1)"
    by (cases "execute_tool_call P tc w")
  obtain rs2 w2 where 2: "execute_tool_calls P tcs w1 = (rs2, w2)"
    by (cases "execute_tool_calls P tcs w1")
  from Cons.prems 1 2 have "w' = w2" by simp
  with Cons.IH[OF 2] execute_tool_call_chats[OF 1] show ?case by simp
qed

lemma react_step_chats: "chats (step_world (react_step P tools messages w)) = chats w + 1"
proof (cases "brain_chat P w messages tools")
  case (Inl e)
  then show ?thesis by (simp add: react_step_def step_world_def)
next
  case (Inr resp)
  show ?thesis
  proof (cases "r_tool_calls resp")
    case None
    with Inr show ?thesis by (simp add: react_step_def step_world_def)
  next
    case (Some tcs)
    show ?thesis
    proof (cases tcs)
      case Nil
      with Inr Some show ?thesis by (simp add: react_step_def step_world_def)
    next
      case (Cons tc rest)
      obtain rs w2 where
        e: "execute_tool_calls P (tc # rest) (w\<lparr>chats := chats w + 1\<rparr>) = (rs, w2)"
        by (cases "execute_tool_calls P (tc # rest) (w\<lparr>chats := chats w + 1\<rparr>)")
      from execute_tool_calls_chats[OF e] have "chats w2 = chats w + 1" by simp
      with Inr Some Cons e show ?thesis
        by (simp add: react_step_def step_world_def Let_def del: execute_tool_calls.simps
            split: prod.splits option.splits)
    qed
  qed
qed

lemma react_loop_chats:
  assumes "react_loop P tools iteration final messages w = (iteration', final', messages', w')"
    and "iteration \<le> MAX_ITERATIONS"
  shows "iteration' \<le> MAX_ITERATIONS \<and> iteration \<le> iteration'
         \<and> chats w' = chats w + (iteration' - iteration)"
  using assms
proof (induction P tools iteration final messages w rule: react_loop.induct)
  case (1 P tools iteration final messages w)
  show ?case
  proof (cases "iteration < MAX_ITERATIONS")
    case False
    with 1(2,3) show ?thesis by simp
  next
    case True
    show ?thesis
    proof (cases "react_step P tools messages w")
      case (Continue m2 w2)
      with True 1(2)
      have "react_loop P tools (iteration + 1) final m2 w2 = (iteration', final', messages', w')"
        by simp
      from 1(1)[OF True Continue this] True
      have "iteration' \<le> MAX_ITERATIONS \<and> iteration + 1 \<le> iteration'
            \<and> chats w' = chats w2 + (iteration' - (iteration + 1))"
        by simp
      moreover have "chats w2 = chats w + 1"
        using react_step_chats[of P tools messages w] Continue by (simp add: step_world_def)
      ultimately show ?thesis by arith
    next
      case (Break f2 m2 w2)
      with True 1(2) have "iteration' = iteration + 1" and "w' = w2" by simp_all
      moreover have "chats w2 = chats w + 1"
        using react_step_chats[of P tools messages w] Break by (simp add: step_world_def)
      ultimately show ?thesis using True by simp
    qed
  qed
qed

text \<open>
  Claim C5. A request makes at most \<^verbatim>\<open>MAX_ITERATIONS\<close> calls of the reasoning client, ten
  by default, and it always ends with a final text: \<open>react_loop\<close> is a total function,
  its termination proved from the iteration counter, and so is \<open>plan_and_execute\<close>.
\<close>

theorem plan_and_execute_bounded:
  "chats (snd (snd (plan_and_execute P user_input w))) \<le> chats w + MAX_ITERATIONS
   \<and> MAX_ITERATIONS = 10
   \<and> (\<exists>final messages w'. plan_and_execute P user_input w = (final, messages, w'))"
proof -
  let ?w0 = "w\<lparr> memory_log := memory_log w @ [(''user'', user_input)] \<rparr>"
  let ?tools = "get_tools_schema (skills P)"
  obtain it f m w1 where
    l: "react_loop P (if ?tools \<noteq> [] then Some ?tools else None) 0 []
          (\<lparr> role = ''system'', content = Text (build_system_prompt P ?w0),
             tool_calls = None, tool_call_id = None \<rparr> # get_recent_context P ?w0) ?w0
        = (it, f, m, w1)"
    by (metis prod_cases4)
  from react_loop_chats[OF l] have "it \<le> MAX_ITERATIONS" and "chats w1 = chats w + it"
    by simp_all
  then have "chats (snd (snd (plan_and_execute P user_input w))) \<le> chats w + MAX_ITERATIONS"
    using l by (simp add: plan_and_execute_def Let_def)
  moreover have "\<exists>final messages w'. plan_and_execute P user_input w = (final, messages, w')"
    by (metis prod_cases3)
  ultimately show ?thesis by (simp add: MAX_ITERATIONS_def)
qed

text \<open>
  Claim C2, at the input where the code departs from it. The reasoning client asks for a
  tool on its first nine calls and answers \<^verbatim>\<open>done\<close> on the tenth: the loop leaves with
  ten iterations and \<^verbatim>\<open>done\<close> as its final response, and the check after the loop
  (lines 197--199) replaces it with the message of the cap.
\<close>

theorem plan_and_execute_tenth_answer:
  "(case react_loop (bare_planner late_brain) None 0 []
           [\<lparr> role = ''system'', content = Text [], tool_calls = None, tool_call_id = None \<rparr>]
           (world0\<lparr> memory_log := [(''user'', ''go'')] \<rparr>) of
      (iteration, final_response, messages, w) \<Rightarrow> (iteration, final_response, chats w))
     = (10, ''done'', 10)
   \<and> fst (plan_and_execute (bare_planner late_brain) ''go'' world0) = MSG_TOO_COMPLEX
   \<and> MSG_TOO_COMPLEX \<noteq> ''done''"
  by (simp add: plan_and_execute_def final_text_def bare_planner_def new_planner_def world0_def
      late_brain_def MAX_ITERATIONS_def call_unknown_def react_step_def execute_tool_call_def
      failure_def dumps_def assistant_message_def tool_message_def Let_def MSG_TOO_COMPLEX_def)

section \<open>A failure of the reasoning client\<close>

lemma react_loop_break:
  assumes "iteration < MAX_ITERATIONS"
    and "react_step P tools messages w = Break final messages' w'"
  shows "react_loop P tools iteration final_response messages w = (iteration + 1, final, messages', w')"
  using assms by simp

lemma react_loop_continue:
  assumes "iteration < MAX_ITERATIONS"
    and "react_step P tools messages w = Continue messages' w'"
  shows "react_loop P tools iteration final_response messages w =
         react_loop P tools (iteration + 1) final_response messages' w'"
  using assms by simp

text \<open>
  Claim C7, as the code has it. When the call of the reasoning client raises at an
  iteration before the last, the loop is left at once: the world shows this one reasoning
  call more and nothing else, so no tool was dispatched and no call was retried, and the
  final text is the fixed apology followed by the text of the exception.
\<close>

theorem reasoning_failure_aborts:
  assumes "iteration + 1 < MAX_ITERATIONS"
    and "brain_chat P w messages tools = Inl e"
  shows "react_loop P tools iteration final_response messages w =
           (iteration + 1, MSG_LOOP_ERROR @ e, messages, w\<lparr> chats := chats w + 1 \<rparr>)
       \<and> final_text (iteration + 1) (MSG_LOOP_ERROR @ e) = MSG_LOOP_ERROR @ e"
proof -
  from assms(2) have "react_step P tools messages w =
      Break (MSG_LOOP_ERROR @ e) messages (w\<lparr> chats := chats w + 1 \<rparr>)"
    by (simp add: react_step_def)
  with assms(1) show ?thesis
    by (simp add: final_text_def del: react_loop.simps add: react_loop_break)
qed

text \<open>The theorem at the first iteration of a client that raises \<^verbatim>\<open>timeout\<close>.\<close>

theorem reasoning_failure_aborts_witness:
  "(0::nat) + 1 < MAX_ITERATIONS
   \<and> brain_chat (bare_planner (failing_brain ''timeout'')) world0 [] None = Inl ''timeout''
   \<and> react_loop (bare_planner (failing_brain ''timeout'')) None 0 [] [] world0 =
       (1, MSG_LOOP_ERROR @ ''timeout'', [], world0\<lparr> chats := 1 \<rparr>)"
proof -
  have 1: "(0::nat) + 1 < MAX_ITERATIONS" by (simp add: MAX_ITERATIONS_def)
  have 2: "brain_chat (bare_planner (failing_brain ''timeout'')) world0 [] None = Inl ''timeout''"
    by (simp add: bare_planner_def new_planner_def failing_brain_def)
  from reasoning_failure_aborts[OF 1 2, of "[]"] 1 2
  show ?thesis by (simp add: world0_def)
qed

text \<open>
  The final text is not one fixed message: it ends in \<^verbatim>\<open>str(e)\<close> (line 194), so two
  failures give two texts.
\<close>

theorem failure_text_not_fixed_counterexample:
  "fst (plan_and_execute (bare_planner (failing_brain ''timeout'')) ''go'' world0) = MSG_LOOP_ERROR @ ''timeout''
   \<and> fst (plan_and_execute (bare_planner (failing_brain ''refused'')) ''go'' world0) = MSG_LOOP_ERROR @ ''refused''
   \<and> MSG_LOOP_ERROR @ ''timeout'' \<noteq> MSG_LOOP_ERROR @ ''refused''"
  by (simp add: plan_and_execute_def final_text_def bare_planner_def new_planner_def world0_def
      failing_brain_def MAX_ITERATIONS_def react_step_def Let_def)

section \<open>Dispatch: one result for each call\<close>

lemma execute_tool_calls_append:
  "execute_tool_calls P (xs @ ys) w =
     (case execute_tool_calls P xs w of
        (rs1, w1) \<Rightarrow> (case execute_tool_calls P ys w1 of (rs2, w2) \<Rightarrow> (rs1 @ rs2, w2)))"
  by (induction xs arbitrary: w) (auto split: prod.splits)

lemma execute_tool_calls_length:
  "execute_tool_calls P tcs w = (rs, w') \<Longrightarrow> length rs = length tcs"
  by (induction tcs arbitrary: w rs w') (auto split: prod.splits)

lemma batch_around:
  assumes "execute_tool_calls P pre w0 = (rs1, w1)"
    and "execute_tool_call P tc w1 = (r, w2)"
    and "execute_tool_calls P post w2 = (rs2, w3)"
  shows "execute_tool_calls P (pre @ tc # post) w0 = (rs1 @ r # rs2, w3)"
  using assms by (simp add: execute_tool_calls_append)

lemma dumps_dumpable: "dumpable r \<Longrightarrow> dumps r = Inr (Dumps r)"
  by (auto simp add: dumpable_def dumps_def list_all_iff find_None_iff split: option.splits)

lemma dumpable_failure: "dumpable (failure msg)"
  by (simp add: dumpable_def failure_def)

lemma append_tool_messages_dumpable:
  "list_all dumpable (map snd pairs) \<Longrightarrow>
   append_tool_messages ms pairs =
     (None, ms @ map (\<lambda>(tc, r). tool_message tc (Dumps r)) pairs)"
  by (induction pairs arbitrary: ms) (auto simp add: dumps_dumpable)

lemma react_step_continues:
  assumes "brain_chat P w messages tools = Inr resp"
    and "r_tool_calls resp = Some tcs" and "tcs \<noteq> []"
    and "execute_tool_calls P tcs (w\<lparr> chats := chats w + 1 \<rparr>) = (rs, w')"
    and "list_all dumpable rs"
  shows "react_step P tools messages w =
           Continue (messages @ assistant_message resp tcs # tool_messages tcs rs) w'"
proof -
  from assms(3) obtain tc rest where tcs: "tcs = tc # rest" by (cases tcs) auto
  from assms(4) have "length rs = length tcs" by (rule execute_tool_calls_length)
  then have "map snd (zip tcs rs) = rs" by simp
  with assms(5) have "append_tool_messages (messages @ [assistant_message resp tcs]) (zip tcs rs) =
      (None, (messages @ [assistant_message resp tcs]) @ tool_messages tcs rs)"
    unfolding tool_messages_def by (intro append_tool_messages_dumpable) simp
  with assms(1,2,4) tcs show ?thesis
    by (simp add: react_step_def Let_def del: execute_tool_calls.simps)
qed

text \<open>
  A call whose handler raises is recorded as a failure that carries the exception's
  message; the batch goes on with the calls after it and returns one result for each
  call; and when every other result of the batch can be dumped, the loop body ends in
  \<^verbatim>\<open>continue\<close> with one tool message for each call.
\<close>

lemma raising_handler_isolated:
  assumes "map_of (skills P) (tc_name tc) = Some sk"
    and "execute_tool_calls P pre w0 = (rs1, w1)"
    and "confirmation_gate P sk (tc_name tc) (tc_arguments tc) w1 = (Proceed, w2)"
    and "sk_execute sk w2 (tc_arguments tc) = (Inl e, sp)"
    and "execute_tool_calls P post (w2\<lparr> spawned := spawned w2 @ sp \<rparr>) = (rs2, w3)"
  shows "execute_tool_call P tc w1 = (failure e, w2\<lparr> spawned := spawned w2 @ sp \<rparr>)
       \<and> failure e = [(''success'', Json (JBool False)), (''error'', Json (JStr e))]
       \<and> execute_tool_calls P (pre @ tc # post) w0 = (rs1 @ failure e # rs2, w3)
       \<and> length (rs1 @ failure e # rs2) = length (pre @ tc # post)
       \<and> (brain_chat P w messages tools = Inr resp
            \<and> r_tool_calls resp = Some (pre @ tc # post)
            \<and> w0 = w\<lparr> chats := chats w + 1 \<rparr>
            \<and> list_all dumpable rs1 \<and> list_all dumpable rs2
          \<longrightarrow> react_step P tools messages w =
                Continue (messages @ assistant_message resp (pre @ tc # post)
                            # tool_messages (pre @ tc # post) (rs1 @ failure e # rs2)) w3)"
proof -
  have one: "execute_tool_call P tc w1 = (failure e, w2\<lparr> spawned := spawned w2 @ sp \<rparr>)"
    using assms(1,3,4) by (simp add: execute_tool_call_def)
  from batch_around[OF assms(2) one assms(5)]
  have all: "execute_tool_calls P (pre @ tc # post) w0 = (rs1 @ failure e # rs2, w3)" .
  from all have len: "length (rs1 @ failure e # rs2) = length (pre @ tc # post)"
    by (rule execute_tool_calls_length)
  have "react_step P tools messages w =
          Continue (messages @ assistant_message resp (pre @ tc # post)
                      # tool_messages (pre @ tc # post) (rs1 @ failure e # rs2)) w3"
    if "brain_chat P w messages tools = Inr resp"
      and "r_tool_calls resp = Some (pre @ tc # post)"
      and "w0 = w\<lparr> chats := chats w + 1 \<rparr>"
      and "list_all dumpable rs1" and "list_all dumpable rs2"
    using that all by (intro react_step_continues) (simp_all add: dumpable_failure)
  with one all len show ?thesis by (simp add: failure_def)
qed

text \<open>
  The same for a call that names no registered skill: its failure carries the fixed
  prefix followed by the name, and the world is untouched.
\<close>

lemma unknown_skill_isolated:
  assumes "map_of (skills P) (tc_name tc) = None"
    and "execute_tool_calls P pre w0 = (rs1, w1)"
    and "execute_tool_calls P post w1 = (rs2, w2)"
  shows "execute_tool_call P tc w1 = (failure (MSG_UNKNOWN_SKILL @ tc_name tc), w1)
       \<and> failure (MSG_UNKNOWN_SKILL @ tc_name tc) =
           [(''success'', Json (JBool False)), (''error'', Json (JStr (MSG_UNKNOWN_SKILL @ tc_name tc)))]
       \<and> execute_tool_calls P (pre @ tc # post) w0 =
           (rs1 @ failure (MSG_UNKNOWN_SKILL @ tc_name tc) # rs2, w2)
       \<and> (brain_chat P w messages tools = Inr resp
            \<and> r_tool_calls resp = Some (pre @ tc # post)
            \<and> w0 = w\<lparr> chats := chats w + 1 \<rparr>
            \<and> list_all dumpable rs1 \<and> list_all dumpable rs2
          \<longrightarrow> react_step P tools messages w =
                Continue (messages @ assistant_message resp (pre @ tc # post)
                            # tool_messages (pre @ tc # post)
                                (rs1 @ failure (MSG_UNKNOWN_SKILL @ tc_name tc) # rs2)) w2)"
proof -
  let ?r = "failure (MSG_UNKNOWN_SKILL @ tc_name tc)"
  have one: "execute_tool_call P tc w1 = (?r, w1)"
    using assms(1) by (simp add: execute_tool_call_def)
  from batch_around[OF assms(2) one assms(3)]
  have all: "execute_tool_calls P (pre @ tc # post) w0 = (rs1 @ ?r # rs2, w2)" .
  have "react_step P tools messages w =
          Continue (messages @ assistant_message resp (pre @ tc # post)
                      # tool_messages (pre @ tc # post) (rs1 @ ?r # rs2)) w2"
    if "brain_chat P w messages tools = Inr resp"
      and "r_tool_calls resp = Some (pre @ tc # post)"
      and "w0 = w\<lparr> chats := chats w + 1 \<rparr>"
      and "list_all dumpable rs1" and "list_all dumpable rs2"
    using that all by (intro react_step_continues) (simp_all add: dumpable_failure)
  with one all show ?thesis by (simp add: failure_def)
qed

text \<open>
  Claim C10. With no confirmation callback installed, a call whose skill asks for
  confirmation passes the confirmation step unasked and undenied: the handler is
  executed and its result recorded, and no request is logged.
\<close>

theorem missing_callback_skips_confirmation:
  assumes "confirmation_callback P = None"
    and "map_of (skills P) (tc_name tc) = Some sk"
    and "sk_needs_confirmation sk = Some needs"
    and "needs w (tc_arguments tc) = Inr True"
  shows "confirmation_gate P sk (tc_name tc) (tc_arguments tc) w = (Proceed, w)
       \<and> execute_tool_call P tc w =
           (case sk_execute sk w (tc_arguments tc) of
              (Inl e, sp) \<Rightarrow> (failure e, w\<lparr> spawned := spawned w @ sp \<rparr>)
            | (Inr result, sp) \<Rightarrow> (record_result result, w\<lparr> spawned := spawned w @ sp \<rparr>))
       \<and> prompts (snd (execute_tool_call P tc w)) = prompts w"
proof -
  have gate: "confirmation_gate P sk (tc_name tc) (tc_arguments tc) w = (Proceed, w)"
    using assms(1,3,4) by (simp add: confirmation_gate_def)
  with assms(2) show ?thesis
    by (simp add: execute_tool_call_def split: prod.splits sum.splits)
qed

text \<open>The theorem at a new planner, which has no callback, and a skill that always asks.\<close>

theorem missing_callback_skips_confirmation_witness:
  "confirmation_callback (tool_planner (asking_brain [call_tool]) critical_skill) = None
   \<and> sk_needs_confirmation critical_skill = Some (\<lambda>w params. Inr True)
   \<and> execute_tool_call (tool_planner (asking_brain [call_tool]) critical_skill) call_tool world0
      = ([(''success'', Json (JBool True)), (''output'', Json (JStr ''ok'')), (''error'', Json JNull)],
         world0)"
proof -
  let ?P = "tool_planner (asking_brain [call_tool]) critical_skill"
  have 1: "confirmation_callback ?P = None" by (simp add: tool_planner_def new_planner_def)
  have 2: "map_of (skills ?P) (tc_name call_tool) = Some critical_skill"
    by (simp add: tool_planner_def new_planner_def call_tool_def)
  have 3: "sk_needs_confirmation critical_skill = Some (\<lambda>w params. Inr True)"
    by (simp add: critical_skill_def)
  have 4: "(\<lambda>w params. Inr True) world0 (tc_arguments call_tool) = Inr True" by simp
  from missing_callback_skips_confirmation[OF 1 2 3 4] 1 3
  show ?thesis by (simp add: critical_skill_def record_result_def world0_def)
qed

section \<open>A deny-listed command in a terminal tool call\<close>










section \<open>Results of the repository's skills in the loop\<close>

text \<open>With the default configuration, \<^verbatim>\<open>ls\<close> is read-only and safe.\<close>

lemma ls_default:
  "is_command_readonly default_security_config host0 ''ls'' = Inr True
   \<and> is_command_safe default_security_config host0 ''ls''
   \<and> strip host0 [] = [] \<and> len host0 [] = 0"
  by code_simp

text \<open>
  Claim C4, at the input where the code departs from it. The terminal skill returns a
  \<^verbatim>\<open>skills.base_skill.SkillResult\<close>; the planner tests for its own \<^verbatim>\<open>SkillResult\<close> class
  (line 243), so the object is recorded whole (lines 250--253) and \<^verbatim>\<open>json.dumps\<close> raises
  on it (line 181): the batch of one call leaves the assistant message and no tool
  message, and the loop breaks.
\<close>

theorem terminal_result_aborts_loop:
  "react_step (terminal_planner (asking_brain [terminal_call ''ls''])) None [] world0
     = Break (MSG_LOOP_ERROR @ ''Object of type SkillResult is not JSON serializable'')
         [assistant_message \<lparr> r_content = [], r_tool_calls = Some [terminal_call ''ls''] \<rparr>
            [terminal_call ''ls'']]
         (world0\<lparr> chats := 1, spawned := [''ls''] \<rparr>)
   \<and> execute_tool_calls (terminal_planner (asking_brain [terminal_call ''ls''])) [terminal_call ''ls'']
        (world0\<lparr> chats := 1 \<rparr>)
     = ([[(''success'', Json (JBool True)),
          (''output'', BaseSkillResult True
             (Json (JObj [(''returncode'', JInt 0), (''stdout'', JStr []), (''stderr'', JStr [])])) None)]],
        world0\<lparr> chats := 1, spawned := [''ls''] \<rparr>)"
  using ls_default
  by (simp add: react_step_def execute_tool_call_def terminal_planner_def new_planner_def
      terminal_call_def confirmation_gate_def TerminalSkill_def needs_confirmation_def asking_brain_def
      execute_def call_action_def bind_params_def run_command_def record_result_def world0_def
      host0_def finish_process_def base_result_def dumps_def assistant_message_def Let_def)

text \<open>
  Claim C6, at the input where the code departs from it. In a batch of a call whose
  handler raises \<^verbatim>\<open>boom\<close> and a terminal call of \<^verbatim>\<open>ls\<close>, the exception is caught and
  recorded and the terminal call is still dispatched; but \<^verbatim>\<open>json.dumps\<close> raises on the
  terminal call's result, as it does for that call alone, and the loop body ends in
  \<^verbatim>\<open>break\<close>: the loop does not go on to the next reasoning call.
\<close>

theorem raising_call_beside_terminal_call:
  "execute_tool_calls (two_skill_planner (asking_brain [call_tool, terminal_call ''ls'']))
        [call_tool, terminal_call ''ls''] (world0\<lparr> chats := 1 \<rparr>)
     = ([[(''success'', Json (JBool False)), (''error'', Json (JStr ''boom''))],
         [(''success'', Json (JBool True)),
          (''output'', BaseSkillResult True
             (Json (JObj [(''returncode'', JInt 0), (''stdout'', JStr []), (''stderr'', JStr [])])) None)]],
        world0\<lparr> chats := 1, spawned := [''ls''] \<rparr>)
   \<and> react_step (two_skill_planner (asking_brain [call_tool, terminal_call ''ls''])) None [] world0
     = Break (MSG_LOOP_ERROR @ ''Object of type SkillResult is not JSON serializable'')
         [assistant_message
            \<lparr> r_content = [], r_tool_calls = Some [call_tool, terminal_call ''ls''] \<rparr>
            [call_tool, terminal_call ''ls''],
          tool_message call_tool (Dumps (failure ''boom''))]
         (world0\<lparr> chats := 1, spawned := [''ls''] \<rparr>)"
  using ls_default
  by (simp add: react_step_def execute_tool_call_def two_skill_planner_def new_planner_def
      terminal_call_def call_tool_def raising_skill_def failure_def
      confirmation_gate_def TerminalSkill_def needs_confirmation_def asking_brain_def
      execute_def call_action_def bind_params_def run_command_def record_result_def world0_def
      host0_def finish_process_def base_result_def dumps_def assistant_message_def tool_message_def Let_def)

text \<open>
  Claim C8, at the input where the code departs from it. In a batch of a terminal call
  of \<^verbatim>\<open>ls\<close> and a call to the unregistered \<^verbatim>\<open>notepad\<close>, the unknown name is recorded as a
  failure that names it; but \<^verbatim>\<open>json.dumps\<close> raises on the terminal call's result, as it
  does for that call alone, no tool message is appended, not even for the unknown call,
  and the loop body ends in \<^verbatim>\<open>break\<close>.
\<close>

theorem unknown_call_beside_terminal_call:
  "execute_tool_calls (terminal_planner (asking_brain [terminal_call ''ls'', call_unknown]))
        [terminal_call ''ls'', call_unknown] (world0\<lparr> chats := 1 \<rparr>)
     = ([[(''success'', Json (JBool True)),
          (''output'', BaseSkillResult True
             (Json (JObj [(''returncode'', JInt 0), (''stdout'', JStr []), (''stderr'', JStr [])])) None)],
         [(''success'', Json (JBool False)),
          (''error'', Json (JStr (MSG_UNKNOWN_SKILL @ ''notepad'')))]],
        world0\<lparr> chats := 1, spawned := [''ls''] \<rparr>)
   \<and> react_step (terminal_planner (asking_brain [terminal_call ''ls'', call_unknown])) None [] world0
     = Break (MSG_LOOP_ERROR @ ''Object of type SkillResult is not JSON serializable'')
         [assistant_message
            \<lparr> r_content = [], r_tool_calls = Some [terminal_call ''ls'', call_unknown] \<rparr>
            [terminal_call ''ls'', call_unknown]]
         (world0\<lparr> chats := 1, spawned := [''ls''] \<rparr>)"
  using ls_default
  by (simp add: react_step_def execute_tool_call_def terminal_planner_def new_planner_def
      terminal_call_def call_unknown_def failure_def
      confirmation_gate_def TerminalSkill_def needs_confirmation_def asking_brain_def
      execute_def call_action_def bind_params_def run_command_def record_result_def world0_def
      host0_def finish_process_def base_result_def dumps_def assistant_message_def tool_message_def Let_def)

section \<open>The tool schema\<close>

text \<open>
  Claim C9. \<^verbatim>\<open>create_tool_schema\<close> returns the descriptor of the wire format, key by key
  and in this order, with \<^verbatim>\<open>required\<close> the empty list when none is given; the terminal
  skill's schema is the instance with the two required parameters.
\<close>

theorem create_tool_schema_shape:
  "create_tool_schema name description parameters required =
     JObj [(''type'', JStr ''function''),
           (''function'',
            JObj [(''name'', JStr name),
                  (''description'', JStr description),
                  (''parameters'',
                   JObj [(''type'', JStr ''object''),
                         (''properties'', JObj parameters),
                         (''required'',
                          JList (map JStr (case required of None \<Rightarrow> [] | Some r \<Rightarrow> r)))])])]
   \<and> create_tool_schema name description parameters None =
       create_tool_schema name description parameters (Some [])
   \<and> get_schema =
       JObj [(''type'', JStr ''function''),
             (''function'',
              JObj [(''name'', JStr ''terminal''),
                    (''description'', JStr DESC_TERMINAL),
                    (''parameters'',
                     JObj [(''type'', JStr ''object''),
                           (''properties'',
                            JObj [(''action'',
                                   JObj [(''type'', JStr ''string''),
                                         (''enum'', JList [JStr ''run_command'',
                                                           JStr ''run_safe_command'']),
                                         (''description'', JStr DESC_ACTION)]),
                                  (''command'', JObj [(''type'', JStr ''string''),
                                                      (''description'', JStr DESC_COMMAND)]),
                                  (''cwd'', JObj [(''type'', JStr ''string''),
                                                  (''description'', JStr DESC_CWD)]),
                                  (''timeout'', JObj [(''type'', JStr ''integer''),
                                                      (''description'', JStr DESC_TIMEOUT)])]),
                           (''required'', JList [JStr ''action'', JStr ''command''])])])]"
  by (cases required) (simp_all add: create_tool_schema_def get_schema_def)

end
